theory Spec2Isabelle
  imports Main
begin

section \<open>Python values used by the two modules\<close>

text \<open>
  Strings are lists of characters with code points below 256. A Python \<open>dict\<close> keeps
  its keys in insertion order, and the build and test loops iterate over it, so a dict is
  an association list with distinct keys. Assigning to a key that is present replaces
  the value where it stands; assigning to a new key appends the pair.
\<close>

fun dict_setitem :: "'k \<Rightarrow> 'v \<Rightarrow> ('k \<times> 'v) list \<Rightarrow> ('k \<times> 'v) list" where
  "dict_setitem k v [] = [(k, v)]"
| "dict_setitem k v ((k', v') # d) =
     (if k' = k then (k, v) # d else (k', v') # dict_setitem k v d)"

definition dict_keys :: "('k \<times> 'v) list \<Rightarrow> 'k list" where
  "dict_keys d = map fst d"

text \<open>\<open>str.lower()\<close> on code points below 256: the ASCII capitals and the Latin-1
  capitals (all of 192..222 but the multiplication sign 215) move up by 32.\<close>

definition lower_char :: "char \<Rightarrow> char" where
  "lower_char c =
     (let n = of_char c :: nat
      in if (65 \<le> n \<and> n \<le> 90) \<or> (192 \<le> n \<and> n \<le> 222 \<and> n \<noteq> 215)
         then char_of (n + 32) else c)"

definition lower :: "string \<Rightarrow> string" where
  "lower s = map lower_char s"

text \<open>\<open>str(n)\<close> for an integer: decimal digits, a minus sign for a negative number.\<close>

fun str_nat :: "nat \<Rightarrow> string" where
  "str_nat n =
     (if n < 10 then [char_of (48 + n)]
      else str_nat (n div 10) @ [char_of (48 + n mod 10)])"

definition str_int :: "int \<Rightarrow> string" where
  "str_int i = (if i < 0 then CHR ''-'' # str_nat (nat (- i)) else str_nat (nat i))"

text \<open>The exceptions the modelled functions can raise.\<close>

datatype error =
    ArgumentTypeError string
  | KeyError string

section \<open>run\_tests.py: the completer registry\<close>

text \<open>
  One value of the \<open>COMPLETERS\<close> dict. The comment above the dict marks the key
  \<open>aliases\<close> as optional (\<open>aliases?\<close>), so the field is an option: \<open>None\<close> is a dict
  without that key.
\<close>

record completer_spec =
  build :: "string list"
  test :: "string list"
  aliases :: "string list option"

type_synonym registry = "(string \<times> completer_spec) list"

definition SIMPLE_COMPLETERS :: "string list" where
  "SIMPLE_COMPLETERS = [''clangd'', ''rust'', ''go'']"

text \<open>The dict literal of lines 74 to 106, before the loop of line 109 extends it.\<close>

definition COMPLETERS_literal :: registry where
  "COMPLETERS_literal =
    [(''cfamily'',
        \<lparr>build = [''--clang-completer''],
         test = [''--ignore=ycmd/tests/clang''],
         aliases = Some [''c'', ''cpp'', ''c++'', ''objc'', ''clang'']\<rparr>),
     (''cs'',
        \<lparr>build = [''--cs-completer''],
         test = [''--ignore=ycmd/tests/cs''],
         aliases = Some [''omnisharp'', ''csharp'', ''c#'']\<rparr>),
     (''javascript'',
        \<lparr>build = [''--js-completer''],
         test = [''--ignore=ycmd/tests/tern''],
         aliases = Some [''js'', ''tern'']\<rparr>),
     (''typescript'',
        \<lparr>build = [''--ts-completer''],
         test = [''--ignore=ycmd/tests/javascript'', ''--ignore=ycmd/tests/typescript''],
         aliases = Some [''ts'']\<rparr>),
     (''python'',
        \<lparr>build = [],
         test = [''--ignore=ycmd/tests/python''],
         aliases = Some [''jedi'', ''jedihttp'']\<rparr>),
     (''java'',
        \<lparr>build = [''--java-completer''],
         test = [''--ignore=ycmd/tests/java''],
         aliases = Some [''jdt'']\<rparr>)]"

text \<open>The dict the loop body of lines 110 to 113 stores for one simple completer.\<close>

definition simple_entry :: "string \<Rightarrow> completer_spec" where
  "simple_entry completer =
     \<lparr>build = [''--'' @ completer @ ''-completer''],
      test = [''--ignore=ycmd/tests/'' @ completer],
      aliases = None\<rparr>"

text \<open>The loop of line 109, over any list of simple names and any starting dict.\<close>

fun add_simple_completers :: "string list \<Rightarrow> registry \<Rightarrow> registry" where
  "add_simple_completers [] d = d"
| "add_simple_completers (completer # rest) d =
     add_simple_completers rest (dict_setitem completer (simple_entry completer) d)"

text \<open>The module-level \<open>COMPLETERS\<close> as every function below sees it.\<close>

definition COMPLETERS :: registry where
  "COMPLETERS = add_simple_completers SIMPLE_COMPLETERS COMPLETERS_literal"

subsection \<open>CompleterType\<close>

text \<open>
  The dict comprehension of lines 121 and 122: for every item of the registry in order,
  \<open>v['aliases']\<close> is read (a \<open>KeyError\<close> when the key is absent) and every alias is
  stored with the completer's name.
\<close>

fun aliases_to_completer ::
  "registry \<Rightarrow> (string \<times> string) list \<Rightarrow> error + (string \<times> string) list" where
  "aliases_to_completer [] acc = Inr acc"
| "aliases_to_completer ((k, v) # rest) acc =
     (case aliases v of
        None \<Rightarrow> Inl (KeyError ''aliases'')
      | Some al \<Rightarrow> aliases_to_completer rest (fold (\<lambda>i d. dict_setitem i k d) al acc))"

text \<open>\<open>str(COMPLETERS.keys())\<close>, for keys whose \<open>repr\<close> is the key in single quotes.\<close>

fun join_comma :: "string list \<Rightarrow> string" where
  "join_comma [] = []"
| "join_comma [s] = s"
| "join_comma (s # t # rest) = s @ '', '' @ join_comma (t # rest)"

definition str_dict_keys :: "string list \<Rightarrow> string" where
  "str_dict_keys ks =
     ''dict_keys(['' @ join_comma (map (\<lambda>k. [CHR 0x27] @ k @ [CHR 0x27]) ks) @ ''])''"

definition CompleterType :: "string \<Rightarrow> error + string" where
  "CompleterType value0 =
     (let value = lower value0
      in if value \<in> set (dict_keys COMPLETERS) then Inr value
         else (case aliases_to_completer COMPLETERS [] of
                 Inl e \<Rightarrow> Inl e
               | Inr table \<Rightarrow>
                   (case map_of table value of
                      Some k \<Rightarrow> Inr k
                    | None \<Rightarrow>
                        Inl (ArgumentTypeError
                          (value @ '' is not a valid completer - should be one of '' @
                           str_dict_keys (dict_keys COMPLETERS))))))"

subsection \<open>The parsed command line and the process environment\<close>

text \<open>
  The \<open>argparse\<close> namespace. \<open>ParseArguments\<close> replaces the field \<open>completers\<close>
  (a list of names or \<open>None\<close> as parsed) by the result of \<open>FixupCompleters\<close>
  (line 167), so the type of that field is a parameter: \<open>string list option\<close> before,
  \<open>string set\<close> after. \<open>list(completers)\<close> of a Python set has no specified order, and
  every later use is a membership test, so the fixed-up field is kept as a set.
\<close>

record 'c parsed_args =
  no_clang_completer :: bool
  no_completers :: "string list option"
  completers :: 'c
  skip_build :: bool
  msvc :: int
  coverage :: bool
  no_flake8 :: bool
  dump_path :: bool
  no_retry :: bool
  quiet :: bool
  valgrind :: bool

text \<open>The namespace of a command line without options (the defaults of lines 134 to 163).\<close>

definition default_args :: "string list option parsed_args" where
  "default_args =
     \<lparr>no_clang_completer = False, no_completers = None, completers = None,
      skip_build = False, msvc = 16, coverage = False, no_flake8 = False,
      dump_path = False, no_retry = False, quiet = False, valgrind = False\<rparr>"

text \<open>\<open>os.environ\<close>: a variable is unset (\<open>None\<close>) or has a string value.\<close>

type_synonym environ = "string \<Rightarrow> string option"

subsection \<open>FixupCompleters\<close>

definition deprecation_warning :: string where
  "deprecation_warning =
     ''WARNING: The '' @ [CHR 0x22] @ ''--no-clang-completer'' @ [CHR 0x22] @
     '' flag is deprecated. Please use '' @ [CHR 0x22] @ ''--no-completers cfamily'' @
     [CHR 0x22] @ '' instead.''"

text \<open>
  Lines 176 to 184: the \<open>if\<close>/\<open>elif\<close>/\<open>elif\<close> chain over the three command-line
  selections. The result is the lines printed and the working set.
\<close>

definition cli_selection :: "string list option parsed_args \<Rightarrow> string list \<times> string set" where
  "cli_selection args =
     (let all_names = set (dict_keys COMPLETERS)
      in case completers args of
           Some cs \<Rightarrow> ([], set cs)
         | None \<Rightarrow>
             (case no_completers args of
                Some ncs \<Rightarrow> ([], all_names - set ncs)
              | None \<Rightarrow>
                  if no_clang_completer args
                  then ([deprecation_warning], all_names - {''cfamily''})
                  else ([], all_names)))"

text \<open>Lines 186 to 190: the override read from \<open>USE_CLANG_COMPLETER\<close>.\<close>

definition env_override :: "environ \<Rightarrow> string set \<Rightarrow> string set" where
  "env_override environ cs =
     (case environ ''USE_CLANG_COMPLETER'' of
        None \<Rightarrow> cs
      | Some v \<Rightarrow> if v = ''false'' then cs - {''cfamily''} else insert ''cfamily'' cs)"

definition FixupCompleters ::
  "string list option parsed_args \<Rightarrow> environ \<Rightarrow> string list \<times> string set" where
  "FixupCompleters args environ =
     (let (printed, cs) = cli_selection args
      in (printed, env_override environ cs))"

subsection \<open>BuildYcmdLibs and PytestTests\<close>

text \<open>
  What the script reads from the interpreter and the platform: \<open>sys.executable\<close>, the
  directory of the script, \<open>os.path.join\<close> on two components, \<open>OnWindows()\<close>.
\<close>

record host =
  sys_executable :: string
  DIR_OF_THIS_SCRIPT :: string
  path_join :: "string \<Rightarrow> string \<Rightarrow> string"
  OnWindows :: bool

text \<open>\<open>posixpath.join\<close> on two components.\<close>

definition posix_join :: "string \<Rightarrow> string \<Rightarrow> string" where
  "posix_join a b =
     (if b \<noteq> [] \<and> hd b = CHR ''/'' then b
      else if a = [] \<or> last a = CHR ''/'' then a @ b
      else a @ ''/'' @ b)"


definition BASE_PYTEST_ARGS :: "string list" where
  "BASE_PYTEST_ARGS = [''-v'', ''--color=yes'']"

text \<open>
  The loop of lines 208 to 210 over the items of the registry in iteration order
  (\<open>COMPLETERS[key]\<close> is the value stored with \<open>key\<close>).
\<close>

fun extend_build_flags :: "registry \<Rightarrow> string set \<Rightarrow> string list \<Rightarrow> string list" where
  "extend_build_flags [] selected build_cmd = build_cmd"
| "extend_build_flags ((key, v) # rest) selected build_cmd =
     extend_build_flags rest selected
       (if key \<in> selected then build_cmd @ build v else build_cmd)"

text \<open>
  \<open>BuildYcmdLibs\<close>: the new \<open>os.environ\<close> and the command given to
  \<open>subprocess.check_call\<close> (\<open>None\<close> with \<open>--skip-build\<close>, when nothing is run).
\<close>

definition BuildYcmdLibs ::
  "host \<Rightarrow> string set parsed_args \<Rightarrow> environ \<Rightarrow> environ \<times> string list option" where
  "BuildYcmdLibs h args environ =
     (if skip_build args then (environ, None)
      else
        let environ' =
              (case environ ''EXTRA_CMAKE_ARGS'' of
                 Some old \<Rightarrow> environ(''EXTRA_CMAKE_ARGS'' \<mapsto> old @ '' -DUSE_DEV_FLAGS=ON'')
               | None \<Rightarrow> environ(''EXTRA_CMAKE_ARGS'' \<mapsto> ''-DUSE_DEV_FLAGS=ON''));
            cmd0 = [sys_executable h, path_join h (DIR_OF_THIS_SCRIPT h) ''build.py'',
                    ''--core-tests''];
            cmd1 = extend_build_flags COMPLETERS (completers args) cmd0;
            cmd2 = (if msvc args \<noteq> 0 then cmd1 @ [''--msvc'', str_int (msvc args)] else cmd1);
            cmd3 = (if coverage args
                    then cmd2 @ [''--enable-coverage'', ''--build-dir'', ''.build'']
                    else cmd2);
            cmd4 = (if quiet args then cmd3 @ [''--quiet''] else cmd3)
        in (environ', Some cmd4))"

text \<open>The loop of lines 262 to 264.\<close>

fun extend_test_flags :: "registry \<Rightarrow> string set \<Rightarrow> string list \<Rightarrow> string list" where
  "extend_test_flags [] selected pytests_args = pytests_args"
| "extend_test_flags ((key, v) # rest) selected pytests_args =
     extend_test_flags rest selected
       (if key \<notin> selected then pytests_args @ test v else pytests_args)"

text \<open>
  Lines 260 to 274. \<open>pytests_args\<close> is the module-level list \<open>BASE_PYTEST_ARGS\<close> itself
  (no copy is made), so the function takes the current value of that list and its
  result is also the value the list has afterwards.
\<close>

definition pytests_args_of ::
  "host \<Rightarrow> string set parsed_args \<Rightarrow> string list \<Rightarrow> string list \<Rightarrow> string list" where
  "pytests_args_of h args extra_pytests_args base =
     (let a1 = extend_test_flags COMPLETERS (completers args) base;
          a2 = (if coverage args
                then a1 @ [''--ignore=ycmd/tests/python/testdata'', ''--cov=ycmd'']
                else a1)
      in if extra_pytests_args \<noteq> [] then a2 @ extra_pytests_args
         else a2 @ [path_join h (DIR_OF_THIS_SCRIPT h) ''ycmd''])"


text \<open>A POSIX host and a fixed-up namespace, for evaluating the functions above.\<close>

definition posix_host :: host where
  "posix_host =
     \<lparr>sys_executable = ''/usr/bin/python3'', DIR_OF_THIS_SCRIPT = ''/src/ycmd'',
      path_join = posix_join, OnWindows = False\<rparr>"

definition fixed_args :: "string set \<Rightarrow> string set parsed_args" where
  "fixed_args selected =
     \<lparr>no_clang_completer = False, no_completers = None, completers = selected,
      skip_build = False, msvc = 16, coverage = False, no_flake8 = False,
      dump_path = False, no_retry = False, quiet = False, valgrind = False\<rparr>"

section \<open>ycmd/wsgi\_server.py: StoppableWSGIServer\<close>

text \<open>
  The exceptions \<open>self.run()\<close> can leave with: \<open>select.error\<close> or any other one.
\<close>

datatype exn = SelectError | OtherException string

datatype outcome = Returned | Raised exn

text \<open>
  Effects in the order they happen: the assignment to \<open>shutdown_requested\<close> and the
  two calls into the server library, a channel being named by its number.
\<close>

datatype event =
    Set_shutdown_requested
  | Task_dispatcher_shutdown
  | Channel_close nat

text \<open>
  The server object: the class attribute \<open>shutdown_requested\<close>, the address printed by
  \<open>Run\<close>, whether \<open>task_dispatcher.shutdown()\<close> has been called, and \<open>_map\<close>, the dict
  of the library from socket number to open channel.
\<close>

record server =
  shutdown_requested :: bool
  effective_host :: string
  effective_port :: int
  task_dispatcher_stopped :: bool
  channel_map :: "(nat \<times> nat) list"

text \<open>
  What the library does to \<open>_map\<close> during the two calls: it is not code of this
  repository, so it is a parameter. In asyncore, closing a channel deletes the entries
  of that channel from the map.
\<close>

record library =
  dispatcher_shutdown_map :: "(nat \<times> nat) list \<Rightarrow> (nat \<times> nat) list"
  channel_close_map :: "nat \<Rightarrow> (nat \<times> nat) list \<Rightarrow> (nat \<times> nat) list"

definition asyncore_close :: "nat \<Rightarrow> (nat \<times> nat) list \<Rightarrow> (nat \<times> nat) list" where
  "asyncore_close channel m = filter (\<lambda>(fd, c). c \<noteq> channel) m"

text \<open>
  \<open>Run\<close>: \<open>stdin_attached\<close> is \<open>sys.stdin is not None\<close>; \<open>run\<close> is the serving loop of
  the library, which returns or raises, in a state where another thread may have
  called \<open>Shutdown\<close> meanwhile. The result is the lines printed, how \<open>Run\<close> leaves
  and the final state.
\<close>

definition Run ::
  "bool \<Rightarrow> (server \<Rightarrow> outcome \<times> server) \<Rightarrow> server \<Rightarrow> string list \<times> outcome \<times> server" where
  "Run stdin_attached run self =
     (let printed =
            (if stdin_attached
             then [''serving on http://'' @ effective_host self @ '':'' @
                   str_int (effective_port self)]
             else []);
          (result, self') = run self
      in case result of
           Raised SelectError \<Rightarrow>
             if \<not> shutdown_requested self' then (printed, Raised SelectError, self')
             else (printed, Returned, self')
         | _ \<Rightarrow> (printed, result, self'))"

text \<open>One iteration of the loop of lines 57 and 58: \<open>channel.close()\<close>.\<close>

definition close_channel ::
  "library \<Rightarrow> nat \<Rightarrow> event list \<times> server \<Rightarrow> event list \<times> server" where
  "close_channel lib channel st =
     (fst st @ [Channel_close channel],
      (snd st)\<lparr>channel_map := channel_close_map lib channel (channel_map (snd st))\<rparr>)"

text \<open>
  \<open>Shutdown\<close>: the effects in order and the final state. The loop runs over
  \<open>list(self._map.values())\<close>, a list built once before the first iteration.
\<close>

definition Shutdown :: "library \<Rightarrow> server \<Rightarrow> event list \<times> server" where
  "Shutdown lib self =
     (let s1 = self\<lparr>shutdown_requested := True\<rparr>;
          s2 = s1\<lparr>task_dispatcher_stopped := True,
                  channel_map := dispatcher_shutdown_map lib (channel_map s1)\<rparr>;
          snapshot = map snd (channel_map s2)
      in fold (close_channel lib) snapshot
           ([Set_shutdown_requested, Task_dispatcher_shutdown], s2))"

text \<open>
  The lifecycle state of section 3 of the specification (\<open>ServerState\<close>). The class
  does not store it; this function follows the specification's words and reads it off
  the server object: Running until shutdown is requested, Stopped once the dispatcher
  is halted and no channel is open, ShutdownRequested in between.
\<close>

datatype ServerState = Running | ShutdownRequested | Stopped

definition spec_server_state :: "server \<Rightarrow> ServerState" where
  "spec_server_state s =
     (if \<not> shutdown_requested s then Running
      else if task_dispatcher_stopped s \<and> channel_map s = [] then Stopped
      else ShutdownRequested)"

text \<open>A running server with three open channels and the asyncore library, for evaluation.\<close>

definition idle_server :: server where
  "idle_server =
     \<lparr>shutdown_requested = False, effective_host = ''127.0.0.1'', effective_port = 8080,
      task_dispatcher_stopped = False, channel_map = [(3, 0), (5, 1), (6, 2)]\<rparr>"

definition asyncore_library :: library where
  "asyncore_library =
     \<lparr>dispatcher_shutdown_map = (\<lambda>m. m), channel_close_map = asyncore_close\<rparr>"

section \<open>Properties of the registry\<close>

lemma COMPLETERS_value:
  "COMPLETERS =
     COMPLETERS_literal @
     [(''clangd'', simple_entry ''clangd''), (''rust'', simple_entry ''rust''),
      (''go'', simple_entry ''go'')]"
  by (simp add: COMPLETERS_def SIMPLE_COMPLETERS_def COMPLETERS_literal_def)

lemma COMPLETERS_keys:
  "dict_keys COMPLETERS =
     [''cfamily'', ''cs'', ''javascript'', ''typescript'', ''python'', ''java'',
      ''clangd'', ''rust'', ''go'']"
  by (simp add: COMPLETERS_value COMPLETERS_literal_def dict_keys_def)

lemma cfamily_is_key: "''cfamily'' \<in> set (dict_keys COMPLETERS)"
  by (simp add: COMPLETERS_keys)

lemma map_of_dict_setitem: "map_of (dict_setitem k v d) = (map_of d)(k \<mapsto> v)"
  by (induction d) (auto simp: fun_eq_iff)

lemma dict_keys_dict_setitem:
  "dict_keys (dict_setitem k v d) =
     (if k \<in> set (dict_keys d) then dict_keys d else dict_keys d @ [k])"
  by (induction d) (force simp: dict_keys_def)+

lemma distinct_add_simple_completers:
  "distinct (dict_keys d) \<Longrightarrow> distinct (dict_keys (add_simple_completers simple d))"
  by (induction simple arbitrary: d) (simp_all add: dict_keys_dict_setitem)

lemma map_of_add_simple_completers:
  "map_of (add_simple_completers simple d) n =
     (if n \<in> set simple then Some (simple_entry n) else map_of d n)"
  by (induction simple arbitrary: d) (auto simp: map_of_dict_setitem)

text \<open>
  C5, as the code has it. Every simple name \<open>n\<close> is stored with the build flags
  \<open>['--<n>-completer']\<close>, the test flags \<open>['--ignore=ycmd/tests/<n>']\<close> and no
  \<open>aliases\<close> key; every other name keeps the entry of the dict literal; the names of
  \<open>SIMPLE_COMPLETERS\<close> and of the dict literal are disjoint. The loop is a plain
  assignment: it has no check for a shared name and never fails.
\<close>

theorem add_simple_completers_entries:
  "(n \<in> set simple \<longrightarrow>
      map_of (add_simple_completers simple d) n =
        Some \<lparr>build = [''--'' @ n @ ''-completer''],
              test = [''--ignore=ycmd/tests/'' @ n], aliases = None\<rparr>) \<and>
   (n \<notin> set simple \<longrightarrow> map_of (add_simple_completers simple d) n = map_of d n) \<and>
   set SIMPLE_COMPLETERS \<inter> set (dict_keys COMPLETERS_literal) = {}"
  by (simp add: map_of_add_simple_completers simple_entry_def SIMPLE_COMPLETERS_def
        COMPLETERS_literal_def dict_keys_def)

theorem add_simple_completers_entries_witness:
  "map_of (add_simple_completers SIMPLE_COMPLETERS COMPLETERS_literal) ''go'' =
     Some \<lparr>build = [''--go-completer''], test = [''--ignore=ycmd/tests/go''],
           aliases = None\<rparr> \<and>
   map_of (add_simple_completers SIMPLE_COMPLETERS COMPLETERS_literal) ''java'' =
     Some \<lparr>build = [''--java-completer''], test = [''--ignore=ycmd/tests/java''],
           aliases = Some [''jdt'']\<rparr>"
  using add_simple_completers_entries [of "''go''" SIMPLE_COMPLETERS COMPLETERS_literal]
    add_simple_completers_entries [of "''java''" SIMPLE_COMPLETERS COMPLETERS_literal]
  by (simp add: SIMPLE_COMPLETERS_def COMPLETERS_literal_def)

text \<open>
  C5 as stated fails where a simple name is also a name of the dict literal: with
  \<open>javascript\<close> as a simple completer the loop returns a registry with the same keys,
  in which the explicit entry is replaced by the derived one.
\<close>

theorem add_simple_completers_shared_name_overwrites:
  "map_of (add_simple_completers [''javascript''] COMPLETERS_literal) ''javascript'' =
     Some \<lparr>build = [''--javascript-completer''],
           test = [''--ignore=ycmd/tests/javascript''], aliases = None\<rparr> \<and>
   dict_keys (add_simple_completers [''javascript''] COMPLETERS_literal) =
     dict_keys COMPLETERS_literal"
  by (simp add: COMPLETERS_literal_def simple_entry_def dict_keys_def)

section \<open>Properties of CompleterType\<close>

lemma aliases_to_completer_COMPLETERS:
  "aliases_to_completer COMPLETERS [] = Inl (KeyError ''aliases'')"
  by (simp add: COMPLETERS_value COMPLETERS_literal_def simple_entry_def)

text \<open>A canonical name in any mix of cases is returned in lower case.\<close>

lemma CompleterType_canonical:
  "lower value0 \<in> set (dict_keys COMPLETERS) \<Longrightarrow> CompleterType value0 = Inr (lower value0)"
  by (simp add: CompleterType_def Let_def)

text \<open>Every other input ends in the \<open>KeyError\<close> of the alias table.\<close>

lemma CompleterType_not_canonical:
  "lower value0 \<notin> set (dict_keys COMPLETERS) \<Longrightarrow>
   CompleterType value0 = Inl (KeyError ''aliases'')"
  by (simp add: CompleterType_def Let_def aliases_to_completer_COMPLETERS)

lemma CompleterType_Go: "CompleterType ''Go'' = Inr ''go''"
  by code_simp

text \<open>Over the dict literal alone the alias table is built and holds the alias.\<close>

lemma aliases_to_completer_literal:
  "\<exists>table. aliases_to_completer COMPLETERS_literal [] = Inr table \<and>
     map_of table ''cpp'' = Some ''cfamily''"
  by (simp add: COMPLETERS_literal_def)

text \<open>
  C1: an input that matches a registered alias is to be resolved to its canonical name,
  and an input that matches nothing is to fail with the argument-type error. The code
  does neither: the alias \<open>cpp\<close> and the unknown name \<open>nosuch\<close> both end in
  \<open>KeyError('aliases')\<close>, raised while the alias table is built, because the entries of
  the simple completers have no \<open>aliases\<close> key.
\<close>

theorem CompleterType_alias_raises_KeyError:
  "CompleterType ''cpp'' = Inl (KeyError ''aliases'') \<and>
   CompleterType ''nosuch'' = Inl (KeyError ''aliases'')"
  by (simp add: CompleterType_def Let_def aliases_to_completer_COMPLETERS COMPLETERS_keys
        lower_def lower_char_def)

section \<open>Properties of FixupCompleters\<close>

text \<open>
  C2: the override of \<open>USE_CLANG_COMPLETER\<close> is the last step of \<open>FixupCompleters\<close>.
  When the variable is set, \<open>cfamily\<close> is in the result exactly when its value is not
  \<open>false\<close>, whatever the command line selected; no other name is touched; and with
  \<open>--completers go\<close> and an enabling value the result is \<open>{go, cfamily}\<close>.
\<close>

theorem env_override_decides_cfamily:
  "(environ ''USE_CLANG_COMPLETER'' = Some v \<longrightarrow>
      (''cfamily'' \<in> snd (FixupCompleters args environ)) = (v \<noteq> ''false'')) \<and>
   snd (FixupCompleters args environ) = env_override environ (snd (cli_selection args)) \<and>
   snd (FixupCompleters args environ) - {''cfamily''} =
     snd (cli_selection args) - {''cfamily''} \<and>
   (environ ''USE_CLANG_COMPLETER'' = Some v \<and> v \<noteq> ''false'' \<and>
    completers args = Some [''go''] \<and> no_completers args = None \<and>
    \<not> no_clang_completer args \<longrightarrow>
      snd (FixupCompleters args environ) = {''go'', ''cfamily''})"
  by (auto simp: FixupCompleters_def cli_selection_def env_override_def Let_def
        split: option.splits if_splits prod.splits)

theorem env_override_decides_cfamily_witness:
  "snd (FixupCompleters (default_args\<lparr>completers := Some [''go'']\<rparr>)
         [''USE_CLANG_COMPLETER'' \<mapsto> ''true'']) = {''go'', ''cfamily''} \<and>
   ''cfamily'' \<notin> snd (FixupCompleters (default_args\<lparr>completers := Some [''cfamily'']\<rparr>)
         [''USE_CLANG_COMPLETER'' \<mapsto> ''false''])"
  using env_override_decides_cfamily
      [of "[''USE_CLANG_COMPLETER'' \<mapsto> ''true'']" "''true''"
          "default_args\<lparr>completers := Some [''go'']\<rparr>"]
    env_override_decides_cfamily
      [of "[''USE_CLANG_COMPLETER'' \<mapsto> ''false'']" "''false''"
          "default_args\<lparr>completers := Some [''cfamily'']\<rparr>"]
  by (auto simp: default_args_def)

text \<open>
  C3, as the code has it. The deprecated flag \<open>--no-clang-completer\<close> is the last
  branch of the \<open>if\<close>/\<open>elif\<close> chain: it removes \<open>cfamily\<close> from the full set of names
  and prints the warning only when neither \<open>--completers\<close> nor \<open>--no-completers\<close> is
  given; with either of them the flag changes nothing and nothing is printed.
\<close>

theorem legacy_flag_only_in_default_mode:
  "(completers args = None \<and> no_completers args = None \<and> no_clang_completer args \<longrightarrow>
      FixupCompleters args environ =
        ([deprecation_warning],
         env_override environ (set (dict_keys COMPLETERS) - {''cfamily''}))) \<and>
   (completers args \<noteq> None \<or> no_completers args \<noteq> None \<longrightarrow>
      FixupCompleters args environ =
        FixupCompleters (args\<lparr>no_clang_completer := False\<rparr>) environ \<and>
      fst (FixupCompleters args environ) = [])"
  by (auto simp: FixupCompleters_def cli_selection_def Let_def split: option.splits)

theorem legacy_flag_only_in_default_mode_witness:
  "FixupCompleters (default_args\<lparr>no_clang_completer := True\<rparr>) Map.empty =
     ([deprecation_warning],
      {''cs'', ''javascript'', ''typescript'', ''python'', ''java'', ''clangd'', ''rust'',
       ''go''}) \<and>
   FixupCompleters (default_args\<lparr>no_clang_completer := True, completers := Some [''go'']\<rparr>)
       Map.empty =
     FixupCompleters (default_args\<lparr>completers := Some [''go'']\<rparr>) Map.empty"
  using legacy_flag_only_in_default_mode
      [of "default_args\<lparr>no_clang_completer := True\<rparr>" Map.empty]
    legacy_flag_only_in_default_mode
      [of "default_args\<lparr>no_clang_completer := True, completers := Some [''go'']\<rparr>" Map.empty]
  by (auto simp: default_args_def env_override_def COMPLETERS_keys)

text \<open>
  C3 as stated fails in the two other modes: with \<open>--completers cfamily\<close>, or with
  \<open>--no-completers go\<close>, the flag being set, \<open>cfamily\<close> stays in the result and no
  warning is printed.
\<close>

theorem legacy_flag_ignored_with_selection:
  "FixupCompleters
     (default_args\<lparr>no_clang_completer := True, completers := Some [''cfamily'']\<rparr>)
     Map.empty = ([], {''cfamily''}) \<and>
   ''cfamily'' \<in> snd (FixupCompleters
     (default_args\<lparr>no_clang_completer := True, no_completers := Some [''go'']\<rparr>) Map.empty) \<and>
   fst (FixupCompleters
     (default_args\<lparr>no_clang_completer := True, no_completers := Some [''go'']\<rparr>) Map.empty) = []"
  by (simp add: FixupCompleters_def cli_selection_def env_override_def default_args_def
        COMPLETERS_keys)

text \<open>
  C4: when the names given to \<open>--completers\<close> are names of the registry, every name of
  the result of \<open>FixupCompleters\<close> is a name of the registry, for every value of the
  other options and of the environment.
\<close>

theorem FixupCompleters_subset_registry:
  "(\<forall>cs. completers args = Some cs \<longrightarrow> set cs \<subseteq> set (dict_keys COMPLETERS)) \<Longrightarrow>
   snd (FixupCompleters args environ) \<subseteq> set (dict_keys COMPLETERS)"
  using cfamily_is_key
  by (auto simp: FixupCompleters_def cli_selection_def env_override_def Let_def
        split: option.splits if_splits)

theorem FixupCompleters_subset_registry_witness:
  "snd (FixupCompleters (default_args\<lparr>completers := Some [''go'', ''rust'']\<rparr>)
         [''USE_CLANG_COMPLETER'' \<mapsto> ''1'']) \<subseteq> set (dict_keys COMPLETERS)"
  using FixupCompleters_subset_registry
      [of "default_args\<lparr>completers := Some [''go'', ''rust'']\<rparr>"
          "[''USE_CLANG_COMPLETER'' \<mapsto> ''1'']"]
  by (simp add: default_args_def COMPLETERS_keys)

text \<open>
  C10: only the value \<open>false\<close> of \<open>USE_CLANG_COMPLETER\<close> removes \<open>cfamily\<close>; every
  other value (so \<open>False\<close>, \<open>0\<close> and the empty string) adds it; when the variable is
  unset the set chosen on the command line is returned as it is.
\<close>

theorem env_override_only_false_disables:
  "(environ ''USE_CLANG_COMPLETER'' = Some v \<and> v \<noteq> ''false'' \<longrightarrow>
      snd (FixupCompleters args environ) = insert ''cfamily'' (snd (cli_selection args))) \<and>
   (environ ''USE_CLANG_COMPLETER'' = Some ''false'' \<longrightarrow>
      snd (FixupCompleters args environ) = snd (cli_selection args) - {''cfamily''}) \<and>
   (environ ''USE_CLANG_COMPLETER'' = None \<longrightarrow>
      snd (FixupCompleters args environ) = snd (cli_selection args)) \<and>
   fst (FixupCompleters args environ) = fst (cli_selection args)"
  by (auto simp: FixupCompleters_def env_override_def split: prod.splits)

theorem env_override_only_false_disables_witness:
  "''cfamily'' \<in> snd (FixupCompleters (default_args\<lparr>no_completers := Some [''cfamily'']\<rparr>)
       [''USE_CLANG_COMPLETER'' \<mapsto> ''False'']) \<and>
   ''cfamily'' \<in> snd (FixupCompleters (default_args\<lparr>no_completers := Some [''cfamily'']\<rparr>)
       [''USE_CLANG_COMPLETER'' \<mapsto> ''0'']) \<and>
   ''cfamily'' \<in> snd (FixupCompleters (default_args\<lparr>no_completers := Some [''cfamily'']\<rparr>)
       [''USE_CLANG_COMPLETER'' \<mapsto> '''']) \<and>
   ''cfamily'' \<notin> snd (FixupCompleters default_args [''USE_CLANG_COMPLETER'' \<mapsto> ''false'']) \<and>
   snd (FixupCompleters (default_args\<lparr>completers := Some [''go'']\<rparr>) Map.empty) = {''go''}"
  using env_override_only_false_disables
      [of "[''USE_CLANG_COMPLETER'' \<mapsto> ''False'']" "''False''"
          "default_args\<lparr>no_completers := Some [''cfamily'']\<rparr>"]
    env_override_only_false_disables
      [of "[''USE_CLANG_COMPLETER'' \<mapsto> ''0'']" "''0''"
          "default_args\<lparr>no_completers := Some [''cfamily'']\<rparr>"]
    env_override_only_false_disables
      [of "[''USE_CLANG_COMPLETER'' \<mapsto> '''']" "''''"
          "default_args\<lparr>no_completers := Some [''cfamily'']\<rparr>"]
    env_override_only_false_disables
      [of "[''USE_CLANG_COMPLETER'' \<mapsto> ''false'']" "''false''" "default_args"]
    env_override_only_false_disables
      [of "Map.empty" "''''" "default_args\<lparr>completers := Some [''go'']\<rparr>"]
  by (simp add: cli_selection_def default_args_def)

section \<open>Properties of the build and test commands\<close>


lemma extend_build_flags_eq:
  "extend_build_flags reg sel acc =
     acc @ concat (map (build \<circ> snd) (filter (\<lambda>(k, v). k \<in> sel) reg))"
  by (induction reg sel acc rule: extend_build_flags.induct) auto

















lemma pytests_args_of_example:
  "pytests_args_of posix_host (fixed_args {''go'', ''cfamily'', ''python''}) [] BASE_PYTEST_ARGS =
     [''-v'', ''--color=yes'', ''--ignore=ycmd/tests/cs'', ''--ignore=ycmd/tests/tern'',
      ''--ignore=ycmd/tests/javascript'', ''--ignore=ycmd/tests/typescript'',
      ''--ignore=ycmd/tests/java'', ''--ignore=ycmd/tests/clangd'',
      ''--ignore=ycmd/tests/rust'', ''/src/ycmd/ycmd'']"
  by (simp add: pytests_args_of_def COMPLETERS_value COMPLETERS_literal_def simple_entry_def
        fixed_args_def posix_host_def posix_join_def BASE_PYTEST_ARGS_def)

lemma str_int_16: "str_int 16 = ''16''"
  by code_simp

text \<open>
  C7, as the code has it. Unless the build is skipped, the command of \<open>BuildYcmdLibs\<close>
  is the interpreter, the build script and \<open>--core-tests\<close>, then the build flags of the
  selected completers in the iteration order of the registry, then the msvc, coverage
  and quiet flags. The command does not depend on the environment, so a second call
  gives the same command as the first. The environment does change: every call that
  builds appends \<open>-DUSE_DEV_FLAGS=ON\<close> to \<open>EXTRA_CMAKE_ARGS\<close>.
\<close>

theorem BuildYcmdLibs_command_deterministic:
  "(\<not> skip_build args \<longrightarrow>
      snd (BuildYcmdLibs h args environ) =
        Some ([sys_executable h, path_join h (DIR_OF_THIS_SCRIPT h) ''build.py'',
               ''--core-tests''] @
              concat (map (build \<circ> snd)
                (filter (\<lambda>(key, v). key \<in> completers args) COMPLETERS)) @
              (if msvc args \<noteq> 0 then [''--msvc'', str_int (msvc args)] else []) @
              (if coverage args then [''--enable-coverage'', ''--build-dir'', ''.build'']
               else []) @
              (if quiet args then [''--quiet''] else []))) \<and>
   (skip_build args \<longrightarrow> BuildYcmdLibs h args environ = (environ, None)) \<and>
   snd (BuildYcmdLibs h args environ') = snd (BuildYcmdLibs h args environ) \<and>
   snd (BuildYcmdLibs h args (fst (BuildYcmdLibs h args environ))) =
     snd (BuildYcmdLibs h args environ) \<and>
   (\<not> skip_build args \<longrightarrow>
      fst (BuildYcmdLibs h args environ) =
        environ(''EXTRA_CMAKE_ARGS'' \<mapsto>
          (case environ ''EXTRA_CMAKE_ARGS'' of
             None \<Rightarrow> ''-DUSE_DEV_FLAGS=ON''
           | Some old \<Rightarrow> old @ '' -DUSE_DEV_FLAGS=ON'')))"
  by (simp add: BuildYcmdLibs_def Let_def extend_build_flags_eq split: option.splits)

lemma selected_build_flags_example:
  "concat (map (build \<circ> snd)
     (filter (\<lambda>(key, v). key \<in> {''go'', ''cfamily''}) COMPLETERS)) =
   [''--clang-completer'', ''--go-completer'']"
  by (simp add: COMPLETERS_value COMPLETERS_literal_def simple_entry_def)

theorem BuildYcmdLibs_command_deterministic_witness:
  "snd (BuildYcmdLibs posix_host (fixed_args {''go'', ''cfamily''}) Map.empty) =
     Some [''/usr/bin/python3'', ''/src/ycmd/build.py'', ''--core-tests'',
           ''--clang-completer'', ''--go-completer'', ''--msvc'', ''16''] \<and>
   snd (BuildYcmdLibs posix_host (fixed_args {''go'', ''cfamily''})
          (fst (BuildYcmdLibs posix_host (fixed_args {''go'', ''cfamily''}) Map.empty))) =
     Some [''/usr/bin/python3'', ''/src/ycmd/build.py'', ''--core-tests'',
           ''--clang-completer'', ''--go-completer'', ''--msvc'', ''16'']"
proof -
  let ?a = "fixed_args {''go'', ''cfamily''}"
  have build: "\<not> skip_build ?a" by (simp add: fixed_args_def)
  have first: "snd (BuildYcmdLibs posix_host ?a Map.empty) =
     Some [''/usr/bin/python3'', ''/src/ycmd/build.py'', ''--core-tests'',
           ''--clang-completer'', ''--go-completer'', ''--msvc'', ''16'']"
    using BuildYcmdLibs_command_deterministic
        [of ?a posix_host Map.empty, THEN conjunct1, rule_format, OF build]
    by (simp add: fixed_args_def posix_host_def posix_join_def COMPLETERS_value
          COMPLETERS_literal_def simple_entry_def str_int_16)
  have again: "snd (BuildYcmdLibs posix_host ?a (fst (BuildYcmdLibs posix_host ?a Map.empty))) =
     snd (BuildYcmdLibs posix_host ?a Map.empty)"
    by (rule BuildYcmdLibs_command_deterministic
        [THEN conjunct2, THEN conjunct2, THEN conjunct2, THEN conjunct1])
  show ?thesis using first again by simp
qed

text \<open>
  C7 as stated fails in its last part: state is carried from one call to the next in
  \<open>os.environ\<close>. Starting without \<open>EXTRA_CMAKE_ARGS\<close>, the first call leaves the
  variable with one \<open>-DUSE_DEV_FLAGS=ON\<close> and the second call with two.
\<close>

theorem BuildYcmdLibs_environment_accumulates:
  "fst (BuildYcmdLibs posix_host (fixed_args {''go''}) Map.empty) ''EXTRA_CMAKE_ARGS'' =
     Some ''-DUSE_DEV_FLAGS=ON'' \<and>
   fst (BuildYcmdLibs posix_host (fixed_args {''go''})
          (fst (BuildYcmdLibs posix_host (fixed_args {''go''}) Map.empty)))
     ''EXTRA_CMAKE_ARGS'' = Some ''-DUSE_DEV_FLAGS=ON -DUSE_DEV_FLAGS=ON''"
  by (simp add: BuildYcmdLibs_def Let_def fixed_args_def)

section \<open>Properties of StoppableWSGIServer\<close>

text \<open>
  C8: when the serving loop leaves with \<open>select.error\<close>, \<open>Run\<close> raises it again if
  \<open>shutdown_requested\<close> is false at that moment, and returns normally if it is true.
\<close>

theorem Run_select_error:
  "run self = (Raised SelectError, self') \<Longrightarrow>
   (\<not> shutdown_requested self' \<longrightarrow>
      fst (snd (Run stdin_attached run self)) = Raised SelectError) \<and>
   (shutdown_requested self' \<longrightarrow> fst (snd (Run stdin_attached run self)) = Returned) \<and>
   snd (snd (Run stdin_attached run self)) = self'"
  by (simp add: Run_def)

theorem Run_select_error_witness:
  "fst (snd (Run True (\<lambda>s. (Raised SelectError, s)) idle_server)) = Raised SelectError \<and>
   fst (snd (Run True (\<lambda>s. (Raised SelectError, s\<lparr>shutdown_requested := True\<rparr>))
     idle_server)) = Returned"
proof -
  have running: "\<not> shutdown_requested idle_server"
    by (simp add: idle_server_def)
  have "fst (snd (Run True (\<lambda>s. (Raised SelectError, s)) idle_server)) = Raised SelectError"
    using Run_select_error
      [of "\<lambda>s. (Raised SelectError, s)" idle_server idle_server True] running
    by simp
  moreover have "fst (snd (Run True (\<lambda>s. (Raised SelectError, s\<lparr>shutdown_requested := True\<rparr>))
     idle_server)) = Returned"
    using Run_select_error
      [of "\<lambda>s. (Raised SelectError, s\<lparr>shutdown_requested := True\<rparr>)" idle_server
          "idle_server\<lparr>shutdown_requested := True\<rparr>" True]
    by simp
  ultimately show ?thesis by simp
qed

text \<open>Any other way of leaving the loop is passed on unchanged.\<close>

lemma Run_other_outcome:
  "run self = (r, self') \<Longrightarrow> r \<noteq> Raised SelectError \<Longrightarrow>
   snd (Run stdin_attached run self) = (r, self')"
  by (cases r rule: outcome.exhaust; simp add: Run_def split: exn.splits)

lemma fold_close_channel_log:
  "fst (fold (close_channel lib) cs st) = fst st @ map Channel_close cs"
  by (induction cs arbitrary: st) (simp_all add: close_channel_def)

lemma fold_close_channel_flags:
  "shutdown_requested (snd (fold (close_channel lib) cs st)) = shutdown_requested (snd st) \<and>
   task_dispatcher_stopped (snd (fold (close_channel lib) cs st)) =
     task_dispatcher_stopped (snd st)"
  by (induction cs arbitrary: st) (simp_all add: close_channel_def)

lemma asyncore_close_filter:
  "filter (\<lambda>(fd, c'). c' \<notin> set cs) (asyncore_close c m) =
   filter (\<lambda>(fd, c'). c' \<notin> set (c # cs)) m"
  by (induction m) (auto simp: asyncore_close_def)

lemma fold_close_channel_asyncore:
  "channel_close_map lib = asyncore_close \<Longrightarrow>
   channel_map (snd (fold (close_channel lib) cs st)) =
     filter (\<lambda>(fd, c). c \<notin> set cs) (channel_map (snd st))"
proof (induction cs arbitrary: st)
  case Nil
  then show ?case by simp
next
  case (Cons c cs)
  then show ?case by (simp add: close_channel_def asyncore_close_filter del: set_simps)
qed

lemma filter_own_values:
  "set m \<subseteq> set m' \<Longrightarrow> filter (\<lambda>(fd, c). c \<notin> snd ` set m') m = []"
  by (induction m) force+

text \<open>
  C9: \<open>Shutdown\<close> first sets \<open>shutdown_requested\<close>, then stops the task dispatcher,
  then closes the channels that were in the map when the loop started, in the order
  of the map, whatever closing a channel does to the map meanwhile. Afterwards
  shutdown is requested and the dispatcher is stopped; with the asyncore library,
  where closing a channel removes it from the map, no channel is left open, which is
  the state Stopped.
\<close>

theorem Shutdown_order:
  "fst (Shutdown lib self) =
     [Set_shutdown_requested, Task_dispatcher_shutdown] @
     map Channel_close (map snd (dispatcher_shutdown_map lib (channel_map self))) \<and>
   fst (Shutdown (lib\<lparr>channel_close_map := g\<rparr>) self) = fst (Shutdown lib self) \<and>
   shutdown_requested (snd (Shutdown lib self)) \<and>
   task_dispatcher_stopped (snd (Shutdown lib self)) \<and>
   (channel_close_map lib = asyncore_close \<longrightarrow>
      channel_map (snd (Shutdown lib self)) = [] \<and>
      spec_server_state (snd (Shutdown lib self)) = Stopped)"
proof -
  have flt: "filter (\<lambda>(fd, c). c \<notin> snd ` set m) m = []" for m :: "(nat \<times> nat) list"
    by (rule filter_own_values) simp
  show ?thesis
    by (simp add: Shutdown_def Let_def fold_close_channel_log fold_close_channel_flags
          fold_close_channel_asyncore spec_server_state_def flt)
qed

theorem Shutdown_order_witness:
  "fst (Shutdown asyncore_library idle_server) =
     [Set_shutdown_requested, Task_dispatcher_shutdown,
      Channel_close 0, Channel_close 1, Channel_close 2] \<and>
   spec_server_state idle_server = Running \<and>
   spec_server_state (snd (Shutdown asyncore_library idle_server)) = Stopped"
proof -
  note t = Shutdown_order [of asyncore_library idle_server asyncore_close]
  have lib: "channel_close_map asyncore_library = asyncore_close"
    by (simp add: asyncore_library_def)
  have "fst (Shutdown asyncore_library idle_server) =
     [Set_shutdown_requested, Task_dispatcher_shutdown,
      Channel_close 0, Channel_close 1, Channel_close 2]"
    using t [THEN conjunct1] by (simp add: asyncore_library_def idle_server_def)
  moreover have "spec_server_state (snd (Shutdown asyncore_library idle_server)) = Stopped"
    using t [THEN conjunct2, THEN conjunct2, THEN conjunct2, THEN conjunct2] lib by simp
  moreover have "spec_server_state idle_server = Running"
    by (simp add: spec_server_state_def idle_server_def)
  ultimately show ?thesis by simp
qed

end
